theory Spec2Isabelle
  imports Main
begin

section \<open>Data model\<close>

text \<open>
  Timestamps.  The source reads the clock with \<^verbatim>\<open>new Date()\<close>, stores a
  reading with \<^verbatim>\<open>toISOString()\<close> and reads it back with
  \<^verbatim>\<open>new Date(string)\<close>.  A JavaScript date is an integral number of
  milliseconds since the epoch and the ISO string keeps all of them, so a timestamp is
  an \<open>int\<close> of milliseconds here and the string round trip is the identity.  The
  comparison \<^verbatim>\<open>new Date() > expiresAt\<close> compares these numbers.
\<close>

type_synonym timestamp = int

text \<open>\<^verbatim>\<open>ReservationStatus = 'pending' | 'held' | 'confirmed' | 'expired'\<close>
  (ReservationWorkflow.ts).\<close>

datatype ReservationStatus = Pending | Held | Confirmed | Expired

fun status_str :: "ReservationStatus \<Rightarrow> string" where
  "status_str Pending = ''pending''"
| "status_str Held = ''held''"
| "status_str Confirmed = ''confirmed''"
| "status_str Expired = ''expired''"

text \<open>The workflow parameters; an absent optional property is \<open>None\<close>.\<close>

record ReservationParams =
  param_reservationId :: string
  param_seatId :: string
  param_userId :: "string option"

text \<open>The reservation record stored in KV.\<close>

record ReservationData =
  reservationId :: string
  seatId :: string
  userId :: "string option"
  status :: ReservationStatus
  createdAt :: timestamp
  expiresAt :: timestamp
  confirmedAt :: "timestamp option"
  expiredAt :: "timestamp option"

subsection \<open>The KV namespace\<close>

text \<open>
  \<^verbatim>\<open>RESERVATIONS_KV\<close> maps a key to a stored value.  Every write of the
  repository stores \<^verbatim>\<open>JSON.stringify\<close> of a \<open>ReservationData\<close> and every
  read applies \<^verbatim>\<open>JSON.parse\<close> to it, so the store holds the records
  themselves.  A write carries the \<^verbatim>\<open>expirationTtl\<close> option it was given
  (seconds), or none.  \<open>kv_get\<close> is \<^verbatim>\<open>KV.get\<close>: \<open>None\<close> is the
  \<^verbatim>\<open>null\<close> of a missing key.
\<close>

record kv_entry =
  entry_value :: ReservationData
  entry_ttl :: "nat option"

type_synonym KVNamespace = "string \<rightharpoonup> kv_entry"

definition kv_get :: "KVNamespace \<Rightarrow> string \<Rightarrow> ReservationData option" where
  "kv_get kv key = map_option entry_value (kv key)"

definition kv_put :: "KVNamespace \<Rightarrow> string \<Rightarrow> ReservationData \<Rightarrow> nat option \<Rightarrow> KVNamespace" where
  "kv_put kv key v ttl = kv(key \<mapsto> \<lparr>entry_value = v, entry_ttl = ttl\<rparr>)"

section \<open>The Cloudflare workflow (ReservationWorkflow.run)\<close>

text \<open>
  Step \<^verbatim>\<open>create-hold\<close>: one clock reading \<open>now\<close>, the record built from the
  payload, written to KV with a 24 hour TTL, and returned.
\<close>

definition create_hold ::
  "KVNamespace \<Rightarrow> ReservationParams \<Rightarrow> timestamp \<Rightarrow> KVNamespace \<times> ReservationData" where
  "create_hold kv p now =
     (let expires = now + 15 * 60 * 1000;
          reservationData = \<lparr>reservationId = param_reservationId p,
                             seatId = param_seatId p,
                             userId = param_userId p,
                             status = Held,
                             createdAt = now,
                             expiresAt = expires,
                             confirmedAt = None,
                             expiredAt = None\<rparr>
      in (kv_put kv (param_reservationId p) reservationData (Some (60 * 60 * 24)),
          reservationData))"

text \<open>
  Step \<^verbatim>\<open>finalize-reservation\<close>: reads the record, and returns the object
  \<^verbatim>\<open>{ status: ... }\<close>, modelled by its one string.  Only the \<open>held\<close>
  branch writes.
\<close>

definition finalize_reservation ::
  "KVNamespace \<Rightarrow> string \<Rightarrow> timestamp \<Rightarrow> KVNamespace \<times> string" where
  "finalize_reservation kv rid now =
     (case kv_get kv rid of
        None \<Rightarrow> (kv, ''not_found'')
      | Some reservationData \<Rightarrow>
          if status reservationData = Confirmed then (kv, ''confirmed'')
          else if status reservationData = Held then
            (let expiredData = reservationData\<lparr>status := Expired, expiredAt := Some now\<rparr>
             in (kv_put kv rid expiredData (Some (60 * 60 * 24)), ''expired''))
          else (kv, status_str (status reservationData)))"

text \<open>
  Modelled from the spec: the Suspend/Resume Scheduler behind
  \<^verbatim>\<open>step.sleep\<close> and \<^verbatim>\<open>context.wait\<close> belongs to the hosting
  platform and is not in the repository.  Its contract (a wait issued at time \<open>t\<close> for
  a duration \<open>d\<close> has deadline \<open>t + d\<close>, and control returns no earlier than the
  deadline) is written into a timeline of one run: the clock reading of step 1, the
  milliseconds that pass until the wait is issued, and the milliseconds that pass from
  the deadline until the finalize step reads the clock.  Both lags are naturals, so the
  clock does not run backwards and the platform does not resume early.
\<close>

record timeline =
  start_now :: timestamp
  issue_lag :: nat
  resume_lag :: nat

definition wait_deadline :: "timestamp \<Rightarrow> int \<Rightarrow> timestamp" where
  "wait_deadline issued duration = issued + duration"

definition resumed_at :: "timeline \<Rightarrow> int \<Rightarrow> timestamp" where
  "resumed_at tline duration =
     wait_deadline (start_now tline + int (issue_lag tline)) duration + int (resume_lag tline)"

text \<open>
  \<^verbatim>\<open>step.sleep('wait-for-confirmation', '15 minutes')\<close>: the duration string
  in milliseconds, and the clock reading of the finalize step that follows the sleep.
\<close>

definition sleep_ms :: int where
  "sleep_ms = 15 * 60 * 1000"

definition finalize_now :: "timeline \<Rightarrow> timestamp" where
  "finalize_now tline = resumed_at tline sleep_ms"

text \<open>
  \<^verbatim>\<open>run\<close>: create-hold, the sleep, finalize-reservation.  While the workflow
  sleeps, other callers (the confirm route) may write to the store: \<open>during\<close> is
  what they did to it.  The result is the store and the value of the last step.
\<close>

definition run ::
  "KVNamespace \<Rightarrow> ReservationParams \<Rightarrow> timeline \<Rightarrow> (KVNamespace \<Rightarrow> KVNamespace)
   \<Rightarrow> KVNamespace \<times> string" where
  "run kv p tline during =
     (let (kv1, reservation) = create_hold kv p (start_now tline);
          kv2 = during kv1
      in finalize_reservation kv2 (param_reservationId p) (finalize_now tline))"

section \<open>The confirm route (POST /confirm/:id)\<close>

text \<open>
  A response is \<^verbatim>\<open>c.json(body, status)\<close>.  The bodies of the route have four
  shapes: \<^verbatim>\<open>{error}\<close>, \<^verbatim>\<open>{error, reservationId}\<close>,
  \<^verbatim>\<open>{message, reservation}\<close> and \<^verbatim>\<open>{error, reservation}\<close>.
\<close>

datatype json_body =
    Body_error string
  | Body_error_id string string
  | Body_message_reservation string ReservationData
  | Body_error_reservation string ReservationData

record http_response =
  resp_body :: json_body
  resp_status :: nat

definition c_json :: "json_body \<Rightarrow> nat \<Rightarrow> http_response" where
  "c_json b st = \<lparr>resp_body = b, resp_status = st\<rparr>"

fun body_error :: "json_body \<Rightarrow> string option" where
  "body_error (Body_error e) = Some e"
| "body_error (Body_error_id e _) = Some e"
| "body_error (Body_message_reservation _ _) = None"
| "body_error (Body_error_reservation e _) = Some e"

fun body_reservation :: "json_body \<Rightarrow> ReservationData option" where
  "body_reservation (Body_error _) = None"
| "body_reservation (Body_error_id _ _) = None"
| "body_reservation (Body_message_reservation _ r) = Some r"
| "body_reservation (Body_error_reservation _ r) = Some r"

text \<open>
  The handler reads the clock twice on each of its two writing paths: once for the
  comparison with \<open>expiresAt\<close> (\<open>now_check\<close>) and once for the stamp
  (\<open>now_stamp\<close>).  The write of the expired record passes no TTL.  The
  \<^verbatim>\<open>catch\<close> branch (status 500) answers exceptions of the platform calls,
  which the model does not have.
\<close>

definition post_confirm ::
  "KVNamespace \<Rightarrow> string \<Rightarrow> timestamp \<Rightarrow> timestamp \<Rightarrow> KVNamespace \<times> http_response" where
  "post_confirm kv rid now_check now_stamp =
     (if rid = [] then (kv, c_json (Body_error ''Reservation ID is required'') 400)
      else case kv_get kv rid of
        None \<Rightarrow> (kv, c_json (Body_error_id ''Reservation not found'' rid) 404)
      | Some reservationData \<Rightarrow>
          if status reservationData = Confirmed then
            (kv, c_json (Body_message_reservation ''Reservation is already confirmed''
                           reservationData) 200)
          else if status reservationData = Expired then
            (kv, c_json (Body_error_reservation
                           ''Reservation has expired and cannot be confirmed''
                           reservationData) 410)
          else if status reservationData \<noteq> Held then
            (kv, c_json (Body_error_reservation
                           (''Reservation cannot be confirmed from status: ''
                              @ status_str (status reservationData))
                           reservationData) 400)
          else if now_check > expiresAt reservationData then
            (let expiredData = reservationData\<lparr>status := Expired, expiredAt := Some now_stamp\<rparr>
             in (kv_put kv rid expiredData None,
                 c_json (Body_error_reservation
                           ''Reservation has expired (confirmation time exceeded)''
                           expiredData) 410))
          else
            (let confirmedData =
                   reservationData\<lparr>status := Confirmed, confirmedAt := Some now_stamp\<rparr>
             in (kv_put kv rid confirmedData (Some (60 * 60 * 24)),
                 c_json (Body_message_reservation ''Reservation confirmed successfully''
                           confirmedData) 200)))"

text \<open>
  The error of the already-expired branch of the route (index.ts, the branch on
  \<^verbatim>\<open>status === 'expired'\<close>): status 410 with the error message of that
  branch.  The reply of the time check has status 410 too, with a message of its own.
\<close>

definition already_expired :: "http_response \<Rightarrow> bool" where
  "already_expired resp =
     (resp_status resp = 410
      \<and> body_error (resp_body resp) = Some ''Reservation has expired and cannot be confirmed'')"

text \<open>
  The calls that can reach a stored reservation after its creation, and their effect on
  the store, one after the other.
\<close>

datatype call = Confirm timestamp timestamp | Finalize timestamp

fun apply_call :: "string \<Rightarrow> KVNamespace \<Rightarrow> call \<Rightarrow> KVNamespace" where
  "apply_call rid kv (Confirm now_check now_stamp) = fst (post_confirm kv rid now_check now_stamp)"
| "apply_call rid kv (Finalize now) = fst (finalize_reservation kv rid now)"

fun apply_calls :: "string \<Rightarrow> KVNamespace \<Rightarrow> call list \<Rightarrow> KVNamespace" where
  "apply_calls rid kv [] = kv"
| "apply_calls rid kv (c # cs) = apply_calls rid (apply_call rid kv c) cs"

section \<open>The AWS durable function (handler)\<close>

text \<open>
  The AWS workflow has its own, smaller \<^verbatim>\<open>ReservationData\<close> and no store: the
  record of step 1 is a local value, and the finalize step spreads it into a new object
  with the property \<^verbatim>\<open>expiredAt\<close> added.
\<close>

record ReservationEvent =
  event_seatId :: string
  event_userId :: "string option"

datatype aws_ReservationStatus = AwsHeld | AwsConfirmed | AwsExpired

record aws_ReservationData =
  aws_reservationId :: string
  aws_seatId :: string
  aws_userId :: "string option"
  aws_status :: aws_ReservationStatus
  aws_createdAt :: timestamp
  aws_expiresAt :: timestamp

record aws_FinalReservation = aws_ReservationData +
  aws_expiredAt :: timestamp

record handler_result =
  result_message :: string
  result_reservation :: aws_FinalReservation

text \<open>Step 1; \<open>uuid\<close> is the value of \<^verbatim>\<open>crypto.randomUUID()\<close>.\<close>

definition aws_create_hold :: "ReservationEvent \<Rightarrow> string \<Rightarrow> timestamp \<Rightarrow> aws_ReservationData" where
  "aws_create_hold event uuid now =
     (let expires = now + 15 * 60 * 1000
      in \<lparr>aws_reservationId = uuid,
          aws_seatId = event_seatId event,
          aws_userId = event_userId event,
          aws_status = AwsHeld,
          aws_createdAt = now,
          aws_expiresAt = expires\<rparr>)"

text \<open>Step 2: \<^verbatim>\<open>{...reservation, status: "expired", expiredAt: now}\<close>.\<close>

definition aws_finalize :: "aws_ReservationData \<Rightarrow> timestamp \<Rightarrow> aws_FinalReservation" where
  "aws_finalize reservation now =
     \<lparr>aws_reservationId = aws_reservationId reservation,
      aws_seatId = aws_seatId reservation,
      aws_userId = aws_userId reservation,
      aws_status = AwsExpired,
      aws_createdAt = aws_createdAt reservation,
      aws_expiresAt = aws_expiresAt reservation,
      aws_expiredAt = now\<rparr>"

text \<open>\<^verbatim>\<open>context.wait({ seconds: 30 })\<close>, in milliseconds.\<close>

definition aws_wait_ms :: int where
  "aws_wait_ms = 30 * 1000"

definition aws_finalize_now :: "timeline \<Rightarrow> timestamp" where
  "aws_finalize_now tline = resumed_at tline aws_wait_ms"

definition handler :: "ReservationEvent \<Rightarrow> string \<Rightarrow> timeline \<Rightarrow> handler_result" where
  "handler event uuid tline =
     (let reservation = aws_create_hold event uuid (start_now tline);
          finalResult = aws_finalize reservation (aws_finalize_now tline)
      in \<lparr>result_message = ''Reservation workflow completed'',
          result_reservation = finalResult\<rparr>)"

section \<open>Sample values\<close>

text \<open>
  A hold for seat A1 created at time 0 in an empty store, as the create-hold step
  leaves it; the same record once confirmed and once expired; and a timeline without
  lags.
\<close>

definition sample_params :: ReservationParams where
  "sample_params = \<lparr>param_reservationId = ''r-1'', param_seatId = ''A1'',
                     param_userId = Some ''user123''\<rparr>"

definition sample_hold :: ReservationData where
  "sample_hold = \<lparr>reservationId = ''r-1'', seatId = ''A1'', userId = Some ''user123'',
                   status = Held, createdAt = 0, expiresAt = 900000,
                   confirmedAt = None, expiredAt = None\<rparr>"

definition sample_kv :: KVNamespace where
  "sample_kv = kv_put Map.empty ''r-1'' sample_hold (Some 86400)"

definition sample_confirmed_kv :: KVNamespace where
  "sample_confirmed_kv =
     kv_put Map.empty ''r-1'' (sample_hold\<lparr>status := Confirmed, confirmedAt := Some 5000\<rparr>)
       (Some 86400)"

definition sample_expired_kv :: KVNamespace where
  "sample_expired_kv =
     kv_put Map.empty ''r-1'' (sample_hold\<lparr>status := Expired, expiredAt := Some 900000\<rparr>)
       (Some 86400)"

definition sample_timeline :: timeline where
  "sample_timeline = \<lparr>start_now = 0, issue_lag = 0, resume_lag = 0\<rparr>"

definition sample_event :: ReservationEvent where
  "sample_event = \<lparr>event_seatId = ''A1'', event_userId = Some ''user123''\<rparr>"

section \<open>Reading and writing the store\<close>

lemma kv_get_put_same: "kv_get (kv_put kv key v ttl) key = Some v"
  by (simp add: kv_get_def kv_put_def)

lemma kv_get_put_other: "key' \<noteq> key \<Longrightarrow> kv_get (kv_put kv key v ttl) key' = kv_get kv key'"
  by (simp add: kv_get_def kv_put_def)

lemma sample_kv_is_create_hold: "create_hold Map.empty sample_params 0 = (sample_kv, sample_hold)"
  by (simp add: create_hold_def sample_params_def sample_kv_def sample_hold_def Let_def)

lemma kv_get_sample_kv: "kv_get sample_kv ''r-1'' = Some sample_hold"
  by (simp add: sample_kv_def kv_get_put_same)

section \<open>Step 1 of both workflows\<close>

text \<open>
  C6.  The create-hold step of the Cloudflare workflow produces, for every payload and
  every clock reading \<open>now\<close>, a record with status held, \<open>createdAt = now\<close> and
  \<open>expiresAt = createdAt + 15 minutes\<close> (900000 ms, the hold duration, a constant of
  the code), carrying the caller's identifiers, and stores that record under the
  reservation id.  Step 1 of the AWS handler builds the same record, without a store.
\<close>

theorem create_hold_held:
  "status (snd (create_hold kv p now)) = Held
   \<and> createdAt (snd (create_hold kv p now)) = now
   \<and> expiresAt (snd (create_hold kv p now)) = createdAt (snd (create_hold kv p now)) + 900000
   \<and> reservationId (snd (create_hold kv p now)) = param_reservationId p
   \<and> seatId (snd (create_hold kv p now)) = param_seatId p
   \<and> userId (snd (create_hold kv p now)) = param_userId p
   \<and> kv_get (fst (create_hold kv p now)) (param_reservationId p) = Some (snd (create_hold kv p now))
   \<and> aws_status (aws_create_hold event uuid now) = AwsHeld
   \<and> aws_createdAt (aws_create_hold event uuid now) = now
   \<and> aws_expiresAt (aws_create_hold event uuid now)
       = aws_createdAt (aws_create_hold event uuid now) + 900000
   \<and> aws_seatId (aws_create_hold event uuid now) = event_seatId event
   \<and> aws_userId (aws_create_hold event uuid now) = event_userId event"
  by (simp add: create_hold_def aws_create_hold_def kv_get_put_same Let_def)

lemma kv_put_changes:
  "kv_get kv key = Some r \<Longrightarrow> v \<noteq> r \<Longrightarrow> kv_put kv key v ttl \<noteq> kv"
proof
  assume a: "kv_get kv key = Some r" and b: "v \<noteq> r" and c: "kv_put kv key v ttl = kv"
  have "kv_get (kv_put kv key v ttl) key = Some v" by (rule kv_get_put_same)
  with a b c show False by simp
qed

lemma post_confirm_terminal_store:
  "kv_get kv rid = Some r \<Longrightarrow> status r = Confirmed \<or> status r = Expired \<Longrightarrow>
   fst (post_confirm kv rid now_check now_stamp) = kv"
  by (auto simp add: post_confirm_def)

lemma finalize_terminal:
  "kv_get kv rid = Some r \<Longrightarrow> status r = Confirmed \<or> status r = Expired \<Longrightarrow>
   finalize_reservation kv rid now = (kv, status_str (status r))"
  by (auto simp add: finalize_reservation_def)

lemma apply_call_terminal:
  "kv_get kv rid = Some r \<Longrightarrow> status r = Confirmed \<or> status r = Expired \<Longrightarrow>
   apply_call rid kv c = kv"
  by (cases c) (simp_all add: post_confirm_terminal_store finalize_terminal)

lemma apply_calls_terminal:
  "kv_get kv rid = Some r \<Longrightarrow> status r = Confirmed \<or> status r = Expired \<Longrightarrow>
   apply_calls rid kv cs = kv"
  by (induction cs) (simp_all add: apply_call_terminal)

section \<open>The finalize step\<close>

text \<open>
  C1.  The finalize step follows the contract of the reservation state machine.  For
  every stored reservation: if its status is confirmed, finalize leaves the store as it
  is and reports \<open>confirmed\<close>; if its status is held, finalize writes the record with
  status expired and \<open>expiredAt\<close> stamped with its clock reading, and reports
  \<open>expired\<close>; if its status is already expired, finalize leaves the store as it is.
  In the AWS handler the reservation that reaches the finalize step is the value of
  step 1, whose status is held, and the step returns it with status expired and
  \<open>expiredAt\<close> stamped.
\<close>

theorem finalize_contract:
  assumes "kv_get kv rid = Some r"
  shows "(status r = Confirmed \<longrightarrow> finalize_reservation kv rid now = (kv, ''confirmed''))
       \<and> (status r = Held \<longrightarrow>
            finalize_reservation kv rid now
              = (kv_put kv rid (r\<lparr>status := Expired, expiredAt := Some now\<rparr>) (Some 86400),
                 ''expired'')
            \<and> kv_get (fst (finalize_reservation kv rid now)) rid
              = Some (r\<lparr>status := Expired, expiredAt := Some now\<rparr>))
       \<and> (status r = Expired \<longrightarrow> finalize_reservation kv rid now = (kv, ''expired''))
       \<and> aws_status (aws_create_hold event uuid (start_now tline)) = AwsHeld
       \<and> result_reservation (handler event uuid tline)
           = aws_finalize (aws_create_hold event uuid (start_now tline)) (aws_finalize_now tline)
       \<and> aws_status (result_reservation (handler event uuid tline)) = AwsExpired
       \<and> aws_expiredAt (result_reservation (handler event uuid tline)) = aws_finalize_now tline"
  using assms
  by (simp add: finalize_reservation_def kv_get_put_same handler_def aws_finalize_def
      aws_create_hold_def Let_def)

theorem finalize_contract_witness:
  "kv_get sample_confirmed_kv ''r-1'' = Some (sample_hold\<lparr>status := Confirmed, confirmedAt := Some 5000\<rparr>)
   \<and> finalize_reservation sample_confirmed_kv ''r-1'' 900000 = (sample_confirmed_kv, ''confirmed'')
   \<and> kv_get sample_kv ''r-1'' = Some sample_hold
   \<and> status sample_hold = Held
   \<and> kv_get (fst (finalize_reservation sample_kv ''r-1'' 900000)) ''r-1''
       = Some (sample_hold\<lparr>status := Expired, expiredAt := Some 900000\<rparr>)
   \<and> snd (finalize_reservation sample_kv ''r-1'' 900000) = ''expired''
   \<and> kv_get sample_expired_kv ''r-1'' = Some (sample_hold\<lparr>status := Expired, expiredAt := Some 900000\<rparr>)
   \<and> finalize_reservation sample_expired_kv ''r-1'' 900001 = (sample_expired_kv, ''expired'')"
proof -
  have c: "kv_get sample_confirmed_kv ''r-1''
             = Some (sample_hold\<lparr>status := Confirmed, confirmedAt := Some 5000\<rparr>)"
    by (simp add: sample_confirmed_kv_def kv_get_put_same)
  have h: "kv_get sample_kv ''r-1'' = Some sample_hold"
    by (rule kv_get_sample_kv)
  have e: "kv_get sample_expired_kv ''r-1''
             = Some (sample_hold\<lparr>status := Expired, expiredAt := Some 900000\<rparr>)"
    by (simp add: sample_expired_kv_def kv_get_put_same)
  have sh: "status sample_hold = Held"
    by (simp add: sample_hold_def)
  show ?thesis
    using finalize_contract [OF c, of 900000] finalize_contract [OF h, of 900000]
      finalize_contract [OF e, of 900001] c h e sh
    by (simp add: kv_get_put_same)
qed

text \<open>
  C10.  When the reservation record is absent from the store at the time the finalize
  step runs, the step returns \<open>not_found\<close> as an ordinary value, the store is left as
  it was, and the run of the workflow ends with that value.
\<close>

theorem finalize_missing_record:
  assumes "kv_get kv rid = None"
  shows "finalize_reservation kv rid now = (kv, ''not_found'')
       \<and> (during (fst (create_hold kv0 p (start_now tline))) = kv \<and> param_reservationId p = rid
            \<longrightarrow> run kv0 p tline during = (kv, ''not_found''))"
  using assms by (auto simp add: finalize_reservation_def run_def split: prod.splits)

theorem finalize_missing_record_witness:
  "kv_get Map.empty ''r-1'' = None
   \<and> finalize_reservation Map.empty ''r-1'' 900000 = (Map.empty, ''not_found'')
   \<and> (\<lambda>kv. Map.empty) (fst (create_hold Map.empty sample_params (start_now sample_timeline)))
       = Map.empty
   \<and> param_reservationId sample_params = ''r-1''
   \<and> run Map.empty sample_params sample_timeline (\<lambda>kv. Map.empty) = (Map.empty, ''not_found'')"
proof -
  have h: "kv_get Map.empty ''r-1'' = None" by (simp add: kv_get_def)
  have d: "(\<lambda>kv. Map.empty) (fst (create_hold Map.empty sample_params (start_now sample_timeline)))
             = (Map.empty :: KVNamespace)" by simp
  have p: "param_reservationId sample_params = ''r-1''" by (simp add: sample_params_def)
  note a = finalize_missing_record [OF h, of 900000 "\<lambda>kv. Map.empty" Map.empty sample_params
      sample_timeline]
  from a h d p show ?thesis by blast
qed

section \<open>The confirm route\<close>

text \<open>
  C4.  For every stored reservation whose status is held and every clock reading of
  the confirm route at or before its \<open>expiresAt\<close>, confirm stores the reservation
  with status confirmed and \<open>confirmedAt\<close> stamped with the time of the call (the
  clock reading taken for the stamp), and answers 200 with that record.
\<close>

theorem confirm_in_window_confirms:
  assumes "rid \<noteq> []" and "kv_get kv rid = Some r" and "status r = Held"
    and "now_check \<le> expiresAt r"
  shows "post_confirm kv rid now_check now_stamp
           = (kv_put kv rid (r\<lparr>status := Confirmed, confirmedAt := Some now_stamp\<rparr>) (Some 86400),
              c_json (Body_message_reservation ''Reservation confirmed successfully''
                        (r\<lparr>status := Confirmed, confirmedAt := Some now_stamp\<rparr>)) 200)
       \<and> kv_get (fst (post_confirm kv rid now_check now_stamp)) rid
           = Some (r\<lparr>status := Confirmed, confirmedAt := Some now_stamp\<rparr>)"
  using assms by (simp add: post_confirm_def Let_def kv_get_put_same)

theorem confirm_in_window_confirms_witness:
  "''r-1'' \<noteq> [] \<and> kv_get sample_kv ''r-1'' = Some sample_hold \<and> status sample_hold = Held
   \<and> 5000 \<le> expiresAt sample_hold
   \<and> kv_get (fst (post_confirm sample_kv ''r-1'' 5000 5000)) ''r-1''
       = Some (sample_hold\<lparr>status := Confirmed, confirmedAt := Some 5000\<rparr>)"
proof -
  have h1: "''r-1'' \<noteq> []" by simp
  have h3: "status sample_hold = Held" by (simp add: sample_hold_def)
  have h4: "5000 \<le> expiresAt sample_hold" by (simp add: sample_hold_def)
  show ?thesis
    using confirm_in_window_confirms [OF h1 kv_get_sample_kv h3 h4, of 5000]
      h1 kv_get_sample_kv h3 h4
    by blast
qed

text \<open>
  C2.  For every stored reservation whose status is held and every clock reading of
  the confirm route strictly after its \<open>expiresAt\<close>, confirm stores the reservation
  with status expired and \<open>expiredAt\<close> stamped (with the second clock reading of the
  call), and returns that record; the status it leaves is never confirmed.
\<close>

theorem confirm_after_deadline_expires:
  assumes "rid \<noteq> []" and "kv_get kv rid = Some r" and "status r = Held"
    and "expiresAt r < now_check"
  shows "kv_get (fst (post_confirm kv rid now_check now_stamp)) rid
           = Some (r\<lparr>status := Expired, expiredAt := Some now_stamp\<rparr>)
       \<and> body_reservation (resp_body (snd (post_confirm kv rid now_check now_stamp)))
           = Some (r\<lparr>status := Expired, expiredAt := Some now_stamp\<rparr>)
       \<and> status (r\<lparr>status := Expired, expiredAt := Some now_stamp\<rparr>) = Expired
       \<and> expiredAt (r\<lparr>status := Expired, expiredAt := Some now_stamp\<rparr>) = Some now_stamp
       \<and> map_option status (kv_get (fst (post_confirm kv rid now_check now_stamp)) rid)
           \<noteq> Some Confirmed"
  using assms by (simp add: post_confirm_def Let_def kv_get_put_same c_json_def)

theorem confirm_after_deadline_expires_witness:
  "''r-1'' \<noteq> [] \<and> kv_get sample_kv ''r-1'' = Some sample_hold \<and> status sample_hold = Held
   \<and> expiresAt sample_hold < 901000
   \<and> kv_get (fst (post_confirm sample_kv ''r-1'' 901000 901002)) ''r-1''
       = Some (sample_hold\<lparr>status := Expired, expiredAt := Some 901002\<rparr>)"
proof -
  have h1: "''r-1'' \<noteq> []" by simp
  have h3: "status sample_hold = Held" by (simp add: sample_hold_def)
  have h4: "expiresAt sample_hold < 901000" by (simp add: sample_hold_def)
  show ?thesis
    using confirm_after_deadline_expires [OF h1 kv_get_sample_kv h3 h4, of 901002]
      h1 kv_get_sample_kv h3 h4
    by blast
qed

text \<open>
  C9.  For every confirm call that reads a held reservation after its \<open>expiresAt\<close>,
  the call both writes the expired record (status expired, \<open>expiredAt\<close> stamped) to
  the store, which is thereby changed, and answers the caller with an error response
  (status 410, an error property).
\<close>

theorem confirm_after_deadline_writes_and_fails:
  assumes "rid \<noteq> []" and "kv_get kv rid = Some r" and "status r = Held"
    and "expiresAt r < now_check"
  shows "fst (post_confirm kv rid now_check now_stamp)
           = kv_put kv rid (r\<lparr>status := Expired, expiredAt := Some now_stamp\<rparr>) None
       \<and> fst (post_confirm kv rid now_check now_stamp) \<noteq> kv
       \<and> snd (post_confirm kv rid now_check now_stamp)
           = c_json (Body_error_reservation
                       ''Reservation has expired (confirmation time exceeded)''
                       (r\<lparr>status := Expired, expiredAt := Some now_stamp\<rparr>)) 410
       \<and> resp_status (snd (post_confirm kv rid now_check now_stamp)) = 410
       \<and> body_error (resp_body (snd (post_confirm kv rid now_check now_stamp))) \<noteq> None"
proof -
  let ?e = "r\<lparr>status := Expired, expiredAt := Some now_stamp\<rparr>"
  have eq: "post_confirm kv rid now_check now_stamp
              = (kv_put kv rid ?e None,
                 c_json (Body_error_reservation
                           ''Reservation has expired (confirmation time exceeded)'' ?e) 410)"
    using assms by (simp add: post_confirm_def Let_def)
  have "?e \<noteq> r"
  proof
    assume "?e = r"
    then have "status ?e = status r" by (rule arg_cong)
    with assms(3) show False by simp
  qed
  then have "kv_put kv rid ?e None \<noteq> kv" by (rule kv_put_changes [OF assms(2)])
  with eq show ?thesis by (simp add: c_json_def)
qed

theorem confirm_after_deadline_writes_and_fails_witness:
  "''r-1'' \<noteq> [] \<and> kv_get sample_kv ''r-1'' = Some sample_hold \<and> status sample_hold = Held
   \<and> expiresAt sample_hold < 900001
   \<and> fst (post_confirm sample_kv ''r-1'' 900001 900001) \<noteq> sample_kv
   \<and> resp_status (snd (post_confirm sample_kv ''r-1'' 900001 900001)) = 410"
proof -
  have h1: "''r-1'' \<noteq> []" by simp
  have h3: "status sample_hold = Held" by (simp add: sample_hold_def)
  have h4: "expiresAt sample_hold < 900001" by (simp add: sample_hold_def)
  show ?thesis
    using confirm_after_deadline_writes_and_fails [OF h1 kv_get_sample_kv h3 h4, of 900001]
      h1 kv_get_sample_kv h3 h4
    by blast
qed

text \<open>
  C7.  For every stored reservation, confirm fails with the already-expired error if
  and only if the status it read is expired, and then it writes nothing.  In every
  other case it returns a reservation record rather than that error: the record
  unchanged when the status is confirmed, the confirmed record when the status is held
  and the clock reading is at or before \<open>expiresAt\<close>, and the expired record when the
  status is held and the clock reading is after \<open>expiresAt\<close>.
\<close>

theorem confirm_already_expired_iff:
  assumes "rid \<noteq> []" and "kv_get kv rid = Some r"
  shows "(already_expired (snd (post_confirm kv rid now_check now_stamp))
            \<longleftrightarrow> status r = Expired)
       \<and> (status r = Expired \<longrightarrow>
            post_confirm kv rid now_check now_stamp
              = (kv, c_json (Body_error_reservation
                               ''Reservation has expired and cannot be confirmed'' r) 410))
       \<and> (status r = Confirmed \<longrightarrow>
            body_reservation (resp_body (snd (post_confirm kv rid now_check now_stamp)))
              = Some r)
       \<and> (status r = Held \<and> now_check \<le> expiresAt r \<longrightarrow>
            body_reservation (resp_body (snd (post_confirm kv rid now_check now_stamp)))
              = Some (r\<lparr>status := Confirmed, confirmedAt := Some now_stamp\<rparr>))
       \<and> (status r = Held \<and> expiresAt r < now_check \<longrightarrow>
            body_reservation (resp_body (snd (post_confirm kv rid now_check now_stamp)))
              = Some (r\<lparr>status := Expired, expiredAt := Some now_stamp\<rparr>))"
  using assms
  by (cases "status r")
    (simp_all add: post_confirm_def already_expired_def c_json_def Let_def)

theorem confirm_already_expired_iff_witness:
  "''r-1'' \<noteq> []
   \<and> kv_get sample_expired_kv ''r-1''
       = Some (sample_hold\<lparr>status := Expired, expiredAt := Some 900000\<rparr>)
   \<and> status (sample_hold\<lparr>status := Expired, expiredAt := Some 900000\<rparr>) = Expired
   \<and> already_expired (snd (post_confirm sample_expired_kv ''r-1'' 901000 901000))
   \<and> fst (post_confirm sample_expired_kv ''r-1'' 901000 901000) = sample_expired_kv
   \<and> kv_get sample_confirmed_kv ''r-1''
       = Some (sample_hold\<lparr>status := Confirmed, confirmedAt := Some 5000\<rparr>)
   \<and> status (sample_hold\<lparr>status := Confirmed, confirmedAt := Some 5000\<rparr>) = Confirmed
   \<and> \<not> already_expired (snd (post_confirm sample_confirmed_kv ''r-1'' 6000 6000))
   \<and> body_reservation (resp_body (snd (post_confirm sample_confirmed_kv ''r-1'' 6000 6000)))
       = Some (sample_hold\<lparr>status := Confirmed, confirmedAt := Some 5000\<rparr>)
   \<and> kv_get sample_kv ''r-1'' = Some sample_hold \<and> status sample_hold = Held
   \<and> 5000 \<le> expiresAt sample_hold
   \<and> \<not> already_expired (snd (post_confirm sample_kv ''r-1'' 5000 5000))
   \<and> body_reservation (resp_body (snd (post_confirm sample_kv ''r-1'' 5000 5000)))
       = Some (sample_hold\<lparr>status := Confirmed, confirmedAt := Some 5000\<rparr>)
   \<and> expiresAt sample_hold < 900001
   \<and> \<not> already_expired (snd (post_confirm sample_kv ''r-1'' 900001 900001))
   \<and> body_reservation (resp_body (snd (post_confirm sample_kv ''r-1'' 900001 900001)))
       = Some (sample_hold\<lparr>status := Expired, expiredAt := Some 900001\<rparr>)"
proof -
  have n: "''r-1'' \<noteq> []" by simp
  have e: "kv_get sample_expired_kv ''r-1''
             = Some (sample_hold\<lparr>status := Expired, expiredAt := Some 900000\<rparr>)"
    by (simp add: sample_expired_kv_def kv_get_put_same)
  have es: "status (sample_hold\<lparr>status := Expired, expiredAt := Some 900000\<rparr>) = Expired"
    by simp
  have c: "kv_get sample_confirmed_kv ''r-1''
             = Some (sample_hold\<lparr>status := Confirmed, confirmedAt := Some 5000\<rparr>)"
    by (simp add: sample_confirmed_kv_def kv_get_put_same)
  have cs: "status (sample_hold\<lparr>status := Confirmed, confirmedAt := Some 5000\<rparr>) = Confirmed"
    by simp
  have cne: "status (sample_hold\<lparr>status := Confirmed, confirmedAt := Some 5000\<rparr>) \<noteq> Expired"
    by simp
  have s: "status sample_hold = Held" by (simp add: sample_hold_def)
  have sne: "status sample_hold \<noteq> Expired" by (simp add: sample_hold_def)
  have w: "5000 \<le> expiresAt sample_hold" by (simp add: sample_hold_def)
  have l: "expiresAt sample_hold < 900001" by (simp add: sample_hold_def)
  note a = confirm_already_expired_iff [OF n e, of 901000 901000]
  note b = confirm_already_expired_iff [OF n c, of 6000 6000]
  note i = confirm_already_expired_iff [OF n kv_get_sample_kv, of 5000 5000]
  note j = confirm_already_expired_iff [OF n kv_get_sample_kv, of 900001 900001]
  have a1: "already_expired (snd (post_confirm sample_expired_kv ''r-1'' 901000 901000))"
    using a es by blast
  have a2: "fst (post_confirm sample_expired_kv ''r-1'' 901000 901000) = sample_expired_kv"
    using a es by simp
  have b1: "\<not> already_expired (snd (post_confirm sample_confirmed_kv ''r-1'' 6000 6000))"
    using b cne by blast
  have b2: "body_reservation (resp_body (snd (post_confirm sample_confirmed_kv ''r-1'' 6000 6000)))
              = Some (sample_hold\<lparr>status := Confirmed, confirmedAt := Some 5000\<rparr>)"
    using b cs by blast
  have i1: "\<not> already_expired (snd (post_confirm sample_kv ''r-1'' 5000 5000))"
    using i sne by blast
  have i2: "body_reservation (resp_body (snd (post_confirm sample_kv ''r-1'' 5000 5000)))
              = Some (sample_hold\<lparr>status := Confirmed, confirmedAt := Some 5000\<rparr>)"
    using i s w by blast
  have j1: "\<not> already_expired (snd (post_confirm sample_kv ''r-1'' 900001 900001))"
    using j sne by blast
  have j2: "body_reservation (resp_body (snd (post_confirm sample_kv ''r-1'' 900001 900001)))
              = Some (sample_hold\<lparr>status := Expired, expiredAt := Some 900001\<rparr>)"
    using j s l by blast
  show ?thesis
    by (intro conjI n e es a1 a2 c cs b1 b2 kv_get_sample_kv s w i1 i2 l j1 j2)
qed

section \<open>Terminal states and the frame of a transition\<close>

text \<open>
  C3.  Terminal states are absorbing.  For every stored reservation whose status is
  confirmed or expired, no sequence of later confirm and finalize calls changes the
  store: confirm on a confirmed reservation answers 200 with the record unchanged,
  confirm on an expired reservation answers 410 with an error and writes nothing, and
  finalize on either state writes nothing.
\<close>

theorem terminal_states_absorbing:
  assumes "kv_get kv rid = Some r" and "status r = Confirmed \<or> status r = Expired"
  shows "apply_calls rid kv cs = kv
       \<and> fst (post_confirm kv rid now_check now_stamp) = kv
       \<and> finalize_reservation kv rid now = (kv, status_str (status r))
       \<and> (rid \<noteq> [] \<and> status r = Confirmed \<longrightarrow>
            snd (post_confirm kv rid now_check now_stamp)
              = c_json (Body_message_reservation ''Reservation is already confirmed'' r) 200)
       \<and> (rid \<noteq> [] \<and> status r = Expired \<longrightarrow>
            snd (post_confirm kv rid now_check now_stamp)
              = c_json (Body_error_reservation
                          ''Reservation has expired and cannot be confirmed'' r) 410)"
proof -
  have a: "apply_calls rid kv cs = kv"
    using assms by (rule apply_calls_terminal)
  have b: "fst (post_confirm kv rid now_check now_stamp) = kv"
    using assms by (rule post_confirm_terminal_store)
  have c: "finalize_reservation kv rid now = (kv, status_str (status r))"
    using assms by (rule finalize_terminal)
  have d: "rid \<noteq> [] \<and> status r = Confirmed \<longrightarrow>
            snd (post_confirm kv rid now_check now_stamp)
              = c_json (Body_message_reservation ''Reservation is already confirmed'' r) 200"
    using assms(1) by (simp add: post_confirm_def)
  have e: "rid \<noteq> [] \<and> status r = Expired \<longrightarrow>
            snd (post_confirm kv rid now_check now_stamp)
              = c_json (Body_error_reservation
                          ''Reservation has expired and cannot be confirmed'' r) 410"
    using assms(1) by (simp add: post_confirm_def)
  from a b c d e show ?thesis by blast
qed

theorem terminal_states_absorbing_witness:
  "kv_get sample_confirmed_kv ''r-1''
     = Some (sample_hold\<lparr>status := Confirmed, confirmedAt := Some 5000\<rparr>)
   \<and> status (sample_hold\<lparr>status := Confirmed, confirmedAt := Some 5000\<rparr>) = Confirmed
   \<and> apply_calls ''r-1'' sample_confirmed_kv [Finalize 900000, Confirm 900001 900002, Confirm 6000 6000]
       = sample_confirmed_kv
   \<and> snd (post_confirm sample_confirmed_kv ''r-1'' 6000 6000)
       = c_json (Body_message_reservation ''Reservation is already confirmed''
                   (sample_hold\<lparr>status := Confirmed, confirmedAt := Some 5000\<rparr>)) 200
   \<and> kv_get sample_expired_kv ''r-1''
     = Some (sample_hold\<lparr>status := Expired, expiredAt := Some 900000\<rparr>)
   \<and> status (sample_hold\<lparr>status := Expired, expiredAt := Some 900000\<rparr>) = Expired
   \<and> apply_calls ''r-1'' sample_expired_kv [Confirm 6000 6000, Finalize 900000]
       = sample_expired_kv
   \<and> snd (post_confirm sample_expired_kv ''r-1'' 6000 6000)
       = c_json (Body_error_reservation ''Reservation has expired and cannot be confirmed''
                   (sample_hold\<lparr>status := Expired, expiredAt := Some 900000\<rparr>)) 410"
proof -
  have c: "kv_get sample_confirmed_kv ''r-1''
             = Some (sample_hold\<lparr>status := Confirmed, confirmedAt := Some 5000\<rparr>)"
    by (simp add: sample_confirmed_kv_def kv_get_put_same)
  have cs: "status (sample_hold\<lparr>status := Confirmed, confirmedAt := Some 5000\<rparr>) = Confirmed"
    by simp
  have e: "kv_get sample_expired_kv ''r-1''
             = Some (sample_hold\<lparr>status := Expired, expiredAt := Some 900000\<rparr>)"
    by (simp add: sample_expired_kv_def kv_get_put_same)
  have es: "status (sample_hold\<lparr>status := Expired, expiredAt := Some 900000\<rparr>) = Expired"
    by simp
  have n: "''r-1'' \<noteq> []" by simp
  note tc = terminal_states_absorbing [OF c disjI1 [OF cs],
      of "[Finalize 900000, Confirm 900001 900002, Confirm 6000 6000]" 6000 6000 0]
  note te = terminal_states_absorbing [OF e disjI2 [OF es],
      of "[Confirm 6000 6000, Finalize 900000]" 6000 6000 0]
  from tc te c cs e es n show ?thesis by blast
qed

text \<open>
  C8.  For every confirm or finalize call on a stored reservation, the record stored
  afterwards has the same \<open>reservationId\<close>, \<open>seatId\<close>, \<open>userId\<close>,
  \<open>createdAt\<close> and \<open>expiresAt\<close>: it is the record read, or that record with only
  status and \<open>confirmedAt\<close> set (confirmed), or with only status and \<open>expiredAt\<close>
  set (expired).
\<close>

theorem transitions_keep_identity:
  assumes "kv_get kv rid = Some r"
    and "kv' = fst (post_confirm kv rid now_check now_stamp)
         \<or> kv' = fst (finalize_reservation kv rid now_stamp)"
  shows "\<exists>r'. kv_get kv' rid = Some r'
           \<and> reservationId r' = reservationId r \<and> seatId r' = seatId r \<and> userId r' = userId r
           \<and> createdAt r' = createdAt r \<and> expiresAt r' = expiresAt r
           \<and> (r' = r
              \<or> r' = r\<lparr>status := Confirmed, confirmedAt := Some now_stamp\<rparr>
              \<or> r' = r\<lparr>status := Expired, expiredAt := Some now_stamp\<rparr>)"
  using assms
  by (auto simp add: post_confirm_def finalize_reservation_def kv_get_put_same Let_def)

theorem transitions_keep_identity_witness:
  "kv_get sample_kv ''r-1'' = Some sample_hold
   \<and> (\<exists>r'. kv_get (fst (post_confirm sample_kv ''r-1'' 5000 5001)) ''r-1'' = Some r'
           \<and> reservationId r' = reservationId sample_hold \<and> seatId r' = seatId sample_hold
           \<and> userId r' = userId sample_hold
           \<and> createdAt r' = createdAt sample_hold \<and> expiresAt r' = expiresAt sample_hold
           \<and> (r' = sample_hold
              \<or> r' = sample_hold\<lparr>status := Confirmed, confirmedAt := Some 5001\<rparr>
              \<or> r' = sample_hold\<lparr>status := Expired, expiredAt := Some 5001\<rparr>))
   \<and> (\<exists>r'. kv_get (fst (finalize_reservation sample_kv ''r-1'' 900000)) ''r-1'' = Some r'
           \<and> reservationId r' = reservationId sample_hold \<and> seatId r' = seatId sample_hold
           \<and> userId r' = userId sample_hold
           \<and> createdAt r' = createdAt sample_hold \<and> expiresAt r' = expiresAt sample_hold
           \<and> (r' = sample_hold
              \<or> r' = sample_hold\<lparr>status := Confirmed, confirmedAt := Some 900000\<rparr>
              \<or> r' = sample_hold\<lparr>status := Expired, expiredAt := Some 900000\<rparr>))"
proof -
  note a = transitions_keep_identity [OF kv_get_sample_kv disjI1 [OF refl], of 5000 5001]
  note b = transitions_keep_identity [OF kv_get_sample_kv disjI2 [OF refl], of 900000]
  from a b kv_get_sample_kv show ?thesis by blast
qed

section \<open>The wait before the finalize step\<close>

text \<open>
  The wait of the AWS handler lasts 30 seconds, less than the 15 minute hold: with no
  lag, its finalize step stamps \<open>expiredAt = 30000\<close> on a reservation whose
  \<open>expiresAt\<close> is \<open>900000\<close>, so it runs before \<open>expiresAt\<close>.
\<close>

theorem wait_full_hold_counterexample:
  "aws_wait_ms < 15 * 60 * 1000
   \<and> aws_expiredAt (result_reservation (handler sample_event ''u-1'' sample_timeline))
       < aws_expiresAt (result_reservation (handler sample_event ''u-1'' sample_timeline))"
  by (simp add: aws_wait_ms_def handler_def aws_finalize_def aws_create_hold_def
      aws_finalize_now_def resumed_at_def wait_deadline_def sample_timeline_def Let_def)

text \<open>
  C5, as the code has it.  In the Cloudflare workflow the sleep between create-hold and
  finalize lasts 15 minutes, the hold duration, so the finalize step never reads the
  clock before the reservation's \<open>expiresAt\<close>, whatever was written to the store in
  between.  In the AWS handler the wait lasts 30 seconds: its finalize step runs no
  earlier than 30 seconds after \<open>createdAt\<close>, and stamps the time at which it runs.
\<close>

theorem finalize_not_before_expiry:
  "sleep_ms = 900000
   \<and> expiresAt (snd (create_hold kv p (start_now tline))) \<le> finalize_now tline
   \<and> run kv p tline during
       = finalize_reservation (during (fst (create_hold kv p (start_now tline))))
           (param_reservationId p) (finalize_now tline)
   \<and> aws_wait_ms = 30000
   \<and> aws_createdAt (aws_create_hold event uuid (start_now tline)) + 30000
       \<le> aws_finalize_now tline
   \<and> aws_expiredAt (result_reservation (handler event uuid tline)) = aws_finalize_now tline"
  by (simp add: sleep_ms_def create_hold_def finalize_now_def resumed_at_def wait_deadline_def
      run_def aws_wait_ms_def aws_create_hold_def aws_finalize_now_def handler_def
      aws_finalize_def Let_def)

end
